theory Spec2Isabelle
  imports Main "HOL-Library.Word" "HOL-Library.AList"
begin

section \<open>The Phase 2 worker (wallet/phase2.worker.js)\<close>

subsection \<open>Values at the message boundary\<close>

text \<open>
  The fields \<open>batchId\<close> and \<open>expectedHash\<close> of a request are used by the worker
  only through JavaScript truthiness (\<open>if (expectedHash)\<close>, \<open>batchId || null\<close>) and
  strict equality with a string, so they are kept as JavaScript values: absent
  (\<open>undefined\<close>), \<open>null\<close>, a string or an integral number.
\<close>

datatype jsval = JUndefined | JNull | JStr string | JNum int

fun truthy :: "jsval \<Rightarrow> bool" where
  "truthy JUndefined = False"
| "truthy JNull = False"
| "truthy (JStr s) = (s \<noteq> [])"
| "truthy (JNum n) = (n \<noteq> 0)"

text \<open>The operator \<open>a || b\<close>.\<close>

definition js_or :: "jsval \<Rightarrow> jsval \<Rightarrow> jsval" where
  "js_or a b = (if truthy a then a else b)"

text \<open>\<open>s || d\<close> for an optional string: the default replaces an absent or empty one.\<close>

fun str_or :: "string option \<Rightarrow> string \<Rightarrow> string" where
  "str_or None d = d"
| "str_or (Some s) d = (if s = [] then d else s)"

text \<open>\<open>n || d\<close> for an optional number: the default replaces an absent one or zero.\<close>

fun num_or :: "int option \<Rightarrow> int \<Rightarrow> int" where
  "num_or None d = d"
| "num_or (Some n) d = (if n = 0 then d else n)"

fun list_or :: "'a list option \<Rightarrow> 'a list \<Rightarrow> 'a list" where
  "list_or None d = d"
| "list_or (Some xs) d = xs"

type_synonym bytes = "8 word list"

text \<open>A thrown \<open>Error\<close> with its message.\<close>

datatype js_error = Error string

text \<open>\<open>error.message || String(error)\<close> of the catch handler.\<close>

fun error_text :: "js_error \<Rightarrow> string" where
  "error_text (Error m) = (if m = [] then ''Error'' else m)"

subsection \<open>The wallet engine and the platform, as seen during one message\<close>

text \<open>What the engine's JSON replies parse to.\<close>

record restore_result =
  rr_success :: bool
  rr_address :: "string option"
  rr_error :: "string option"

record ingest_result =
  ir_success :: bool
  ir_txs_matched :: "int option"
  ir_txs_processed :: "int option"
  ir_balance_change :: "string option"
  ir_stake_heights :: "int list option"
  ir_error :: "string option"

record balance_result =
  br_balance :: "string option"
  br_unlocked_balance :: "string option"

record transfer =
  tx_type :: string
  tx_height :: int

text \<open>
  The engine is opaque. Each of its entry points, the digest of the platform and
  \<open>JSON.parse\<close> are parameters of the model: a call either throws (\<open>Inl\<close>) or
  returns (\<open>Inr\<close>). \<open>allocate_binary_buffer\<close> returns the null pointer \<open>0\<close> when it
  fails; \<open>heap_set\<close> (the copy \<open>HEAPU8.set\<close>) and \<open>free_binary_buffer\<close> return
  nothing and may throw. \<open>sha256_hex\<close> stands for \<open>crypto.subtle.digest('SHA-256', data)\<close> followed by
  the hexadecimal encoding of the digest; \<open>parse_*\<close> stand for \<open>JSON.parse\<close> at the
  reply of the entry point of that name.
\<close>

record env =
  now :: int
  import_wasm :: "string \<Rightarrow> bool"
  new_WasmWallet :: "js_error option"
  restore_from_seed :: "string \<Rightarrow> string \<Rightarrow> js_error + string"
  parse_restore :: "string \<Rightarrow> js_error + restore_result"
  sha256_hex :: "bytes \<Rightarrow> js_error + string"
  allocate_binary_buffer :: "nat \<Rightarrow> nat"
  heap_set :: "bytes \<Rightarrow> nat \<Rightarrow> js_error option"
  free_binary_buffer :: "nat \<Rightarrow> js_error option"
  ingest_sparse_transactions :: "nat \<Rightarrow> nat \<Rightarrow> int \<Rightarrow> bool \<Rightarrow> js_error + string"
  parse_ingest :: "string \<Rightarrow> js_error + ingest_result"
  get_balance :: "js_error + string"
  parse_balance :: "string \<Rightarrow> js_error + balance_result"
  get_transfers_as_json :: "js_error + string"
  parse_transfers :: "string \<Rightarrow> js_error + transfer list option"

text \<open>The calls the worker makes across the engine boundary, in the order made.\<close>

datatype call =
    CallImportWasm string
  | CallNewWallet
  | CallRestore string string
  | CallDigest bytes
  | CallAllocate nat nat
  | CallHeapSet nat
  | CallIngest nat nat int bool
  | CallFree nat
  | CallGetBalance
  | CallGetTransfers

subsection \<open>Worker state\<close>

record batch_marker =
  batch_id :: jsval
  batch_height :: int
  batch_timestamp :: int

text \<open>
  The module-level variables. \<open>wasmModule\<close> and \<open>walletInstance\<close> are object handles
  of which the code only tests whether they are null: \<open>True\<close> is a non-null handle.
  \<open>calls\<close> is the log of the calls made so far across the engine boundary; the code has
  no such variable, the log is what its calls leave behind.
\<close>

record worker =
  wasmModule :: bool
  walletInstance :: bool
  isInitialized :: bool
  wasmVersion :: string
  lastProcessedBatch :: batch_marker
  calls :: "call list"

definition initial_worker :: worker where
  "initial_worker =
     \<lparr> wasmModule = False, walletInstance = False, isInitialized = False,
       wasmVersion = ''3.5.15-parallel-phase2'',
       lastProcessedBatch = \<lparr> batch_id = JNull, batch_height = 0, batch_timestamp = 0 \<rparr>,
       calls = [] \<rparr>"

definition record_call :: "call \<Rightarrow> worker \<Rightarrow> worker" where
  "record_call c w = w \<lparr> calls := calls w @ [c] \<rparr>"

subsection \<open>loadWasm and initWallet\<close>

definition loadWasm :: "env \<Rightarrow> worker \<Rightarrow> string option \<Rightarrow> bool \<times> worker" where
  "loadWasm e w version =
     (if wasmModule w then (True, w)
      else
        let v = str_or version (wasmVersion w);
            w1 = record_call (CallImportWasm v) (w \<lparr> wasmVersion := v \<rparr>)
        in if import_wasm e v then (True, w1 \<lparr> wasmModule := True \<rparr>) else (False, w1))"

definition initWallet ::
  "env \<Rightarrow> worker \<Rightarrow> string \<Rightarrow> string option \<Rightarrow> (js_error + bool) \<times> worker" where
  "initWallet e w seedHex password =
     (if \<not> wasmModule w then (Inl (Error ''WASM not loaded''), w)
      else
        case new_WasmWallet e of
          Some err \<Rightarrow> (Inl err, record_call CallNewWallet w)
        | None \<Rightarrow>
            let w1 = (record_call CallNewWallet w) \<lparr> walletInstance := True \<rparr>;
                w2 = record_call (CallRestore seedHex (str_or password [])) w1
            in case restore_from_seed e seedHex (str_or password []) of
                 Inl err \<Rightarrow> (Inl err, w2)
               | Inr reply \<Rightarrow>
                   (case parse_restore e reply of
                      Inl err \<Rightarrow> (Inl err, w2)
                    | Inr parsed \<Rightarrow>
                        if \<not> rr_success parsed
                        then (Inl (Error (str_or (rr_error parsed) ''Failed to restore wallet'')), w2)
                        else (Inr True, w2 \<lparr> isInitialized := True \<rparr>)))"

subsection \<open>verifySparseDataIntegrity and processSparseData\<close>

definition verifySparseDataIntegrity ::
  "env \<Rightarrow> worker \<Rightarrow> bytes \<Rightarrow> jsval \<Rightarrow> (js_error + bool) \<times> worker" where
  "verifySparseDataIntegrity e w sparseData expectedHash =
     (if \<not> truthy expectedHash then (Inr True, w)
      else
        case sha256_hex e sparseData of
          Inl err \<Rightarrow>
            (Inl (Error ''Cryptographic verification failed - cannot proceed safely''),
             record_call (CallDigest sparseData) w)
        | Inr hashHex \<Rightarrow> (Inr (JStr hashHex = expectedHash), record_call (CallDigest sparseData) w))"

text \<open>
  The body of the \<open>try\<close> block of \<open>processSparseData\<close>: copy to the heap, ingest,
  parse the reply, move the marker on success.
\<close>

definition ingest_block ::
  "env \<Rightarrow> worker \<Rightarrow> bytes \<Rightarrow> int \<Rightarrow> jsval \<Rightarrow> nat \<Rightarrow> (js_error + ingest_result) \<times> worker" where
  "ingest_block e w sparseData startHeight batchId ptr =
     (let w1 = record_call (CallHeapSet ptr) w in
      case heap_set e sparseData ptr of
        Some err \<Rightarrow> (Inl err, w1)
      | None \<Rightarrow>
          let w2 = record_call (CallIngest ptr (length sparseData) startHeight True) w1
          in case ingest_sparse_transactions e ptr (length sparseData) startHeight True of
               Inl err \<Rightarrow> (Inl err, w2)
             | Inr resultJson \<Rightarrow>
                 (case parse_ingest e resultJson of
                    Inl err \<Rightarrow> (Inl err, w2)
                  | Inr result \<Rightarrow>
                      if ir_success result
                      then (Inr result,
                            w2 \<lparr> lastProcessedBatch :=
                                   \<lparr> batch_id = js_or batchId JNull,
                                     batch_height = startHeight,
                                     batch_timestamp = now e \<rparr> \<rparr>)
                      else (Inr result, w2)))"

text \<open>
  \<open>processSparseData\<close>. The \<open>finally\<close> block releases the buffer after the \<open>try\<close>
  block has returned or thrown; when the release itself throws, its error replaces
  what the \<open>try\<close> block returned or threw, and what the \<open>try\<close> block did to the
  marker stays.
\<close>

definition processSparseData ::
  "env \<Rightarrow> worker \<Rightarrow> bytes \<Rightarrow> int \<Rightarrow> jsval \<Rightarrow> jsval \<Rightarrow> (js_error + ingest_result) \<times> worker" where
  "processSparseData e w sparseData startHeight batchId expectedHash =
     (if \<not> isInitialized w \<or> \<not> walletInstance w
      then (Inl (Error ''Wallet not initialized''), w)
      else
        case (if truthy expectedHash
              then verifySparseDataIntegrity e w sparseData expectedHash
              else (Inr True, w)) of
          (Inl err, w1) \<Rightarrow> (Inl err, w1)
        | (Inr isValid, w1) \<Rightarrow>
            if \<not> isValid then (Inl (Error ''Sparse data integrity check failed''), w1)
            else
              let ptr = allocate_binary_buffer e (length sparseData);
                  w2 = record_call (CallAllocate (length sparseData) ptr) w1
              in if ptr = 0 then (Inl (Error ''Failed to allocate WASM buffer''), w2)
                 else
                   case ingest_block e w2 sparseData startHeight batchId ptr of
                     (r, w3) \<Rightarrow>
                       (case free_binary_buffer e ptr of
                          Some err \<Rightarrow> (Inl err, record_call (CallFree ptr) w3)
                        | None \<Rightarrow> (r, record_call (CallFree ptr) w3)))"

subsection \<open>The message handler\<close>

record payload =
  p_wasmVersion :: "string option"
  p_seedHex :: string
  p_password :: "string option"
  p_sparseData :: bytes
  p_startHeight :: "int option"
  p_batchId :: jsval
  p_expectedHash :: jsval

record request =
  q_type :: string
  q_id :: jsval
  q_payload :: payload

text \<open>
  A posted message. A field that the message does not have is \<open>None\<close>. The field
  \<open>elapsed\<close> of a \<open>process_result\<close>, a floating-point duration read from the
  clock, is not represented.
\<close>

record response =
  r_type :: string
  r_id :: jsval
  r_success :: "bool option"
  r_error :: "string option"
  r_wasmVersion :: "string option"
  r_txsMatched :: "int option"
  r_txsProcessed :: "int option"
  r_balanceChange :: "string option"
  r_stakeHeights :: "int list option"
  r_lastSuccessfulBatch :: "batch_marker option"
  r_lastProcessedBatch :: "batch_marker option"
  r_balance :: "string option"
  r_unlockedBalance :: "string option"

definition message :: "string \<Rightarrow> jsval \<Rightarrow> response" where
  "message ty i =
     \<lparr> r_type = ty, r_id = i, r_success = None, r_error = None, r_wasmVersion = None,
       r_txsMatched = None, r_txsProcessed = None, r_balanceChange = None,
       r_stakeHeights = None, r_lastSuccessfulBatch = None, r_lastProcessedBatch = None,
       r_balance = None, r_unlockedBalance = None \<rparr>"

text \<open>The \<open>try\<close> block of \<open>self.onmessage\<close>: the \<open>switch\<close> on the request type.\<close>

definition dispatch ::
  "env \<Rightarrow> worker \<Rightarrow> string \<Rightarrow> jsval \<Rightarrow> payload \<Rightarrow> (js_error + response) \<times> worker" where
  "dispatch e w ty i p =
     (if ty = ''init'' then
        (case loadWasm e w (p_wasmVersion p) of
           (loaded, w1) \<Rightarrow>
             if \<not> loaded then (Inl (Error ''Failed to load WASM''), w1)
             else
               (case initWallet e w1 (p_seedHex p) (p_password p) of
                  (Inl err, w2) \<Rightarrow> (Inl err, w2)
                | (Inr ok, w2) \<Rightarrow>
                    (Inr ((message ''init_result'' i)
                            \<lparr> r_success := Some True, r_wasmVersion := Some (wasmVersion w2) \<rparr>),
                     w2)))
      else if ty = ''process'' then
        (case processSparseData e w (p_sparseData p) (num_or (p_startHeight p) 0)
                (p_batchId p) (p_expectedHash p) of
           (Inl err, w1) \<Rightarrow> (Inl err, w1)
         | (Inr result, w1) \<Rightarrow>
             (Inr ((message ''process_result'' i)
                     \<lparr> r_success := Some (ir_success result),
                       r_txsMatched := Some (num_or (ir_txs_matched result) 0),
                       r_txsProcessed := Some (num_or (ir_txs_processed result) 0),
                       r_balanceChange := Some (str_or (ir_balance_change result) ''0''),
                       r_stakeHeights := Some (list_or (ir_stake_heights result) []),
                       r_error := ir_error result,
                       r_lastSuccessfulBatch := Some (lastProcessedBatch w1) \<rparr>),
              w1))
      else if ty = ''get_checkpoint'' then
        (Inr ((message ''checkpoint_result'' i)
                \<lparr> r_lastProcessedBatch := Some (lastProcessedBatch w) \<rparr>), w)
      else if ty = ''get_balance'' then
        (if \<not> walletInstance w then (Inl (Error ''Wallet not initialized''), w)
         else
           let w1 = record_call CallGetBalance w
           in case get_balance e of
                Inl err \<Rightarrow> (Inl err, w1)
              | Inr balance \<Rightarrow>
                  (case parse_balance e balance of
                     Inl err \<Rightarrow> (Inl err, w1)
                   | Inr parsed \<Rightarrow>
                       (Inr ((message ''balance_result'' i)
                               \<lparr> r_balance := Some (str_or (br_balance parsed) ''0''),
                                 r_unlockedBalance :=
                                   Some (str_or (br_unlocked_balance parsed) ''0'') \<rparr>),
                        w1)))
      else if ty = ''get_stake_heights'' then
        (if \<not> walletInstance w then (Inl (Error ''Wallet not initialized''), w)
         else
           let w1 = record_call CallGetTransfers w
           in case get_transfers_as_json e of
                Inl err \<Rightarrow> (Inl err, w1)
              | Inr transfers \<Rightarrow>
                  (case parse_transfers e transfers of
                     Inl err \<Rightarrow> (Inl err, w1)
                   | Inr parsed_in \<Rightarrow>
                       (Inr ((message ''stake_heights_result'' i)
                               \<lparr> r_stakeHeights :=
                                   Some (map tx_height
                                          (filter (\<lambda>tx. tx_type tx = ''stake'')
                                             (list_or parsed_in []))) \<rparr>),
                        w1)))
      else (Inl (Error (''Unknown message type: '' @ ty)), w))"

text \<open>
  \<open>self.onmessage\<close>: the message posted and the worker afterwards. Every path posts
  one message: the one of the \<open>switch\<close>, or the one of the \<open>catch\<close> handler.
\<close>

definition onmessage :: "env \<Rightarrow> worker \<Rightarrow> request \<Rightarrow> response \<times> worker" where
  "onmessage e w rq =
     (case dispatch e w (q_type rq) (q_id rq) (q_payload rq) of
        (Inr posted, w1) \<Rightarrow> (posted, w1)
      | (Inl err, w1) \<Rightarrow>
          ((message (q_type rq @ ''_result'') (q_id rq))
             \<lparr> r_success := Some False, r_error := Some (error_text err) \<rparr>,
           w1))"

text \<open>The calls made between two states of the worker.\<close>

definition new_calls :: "worker \<Rightarrow> worker \<Rightarrow> call list" where
  "new_calls w w' = drop (length (calls w)) (calls w')"

fun is_ingest :: "call \<Rightarrow> bool" where
  "is_ingest (CallIngest ptr n h skip) = True"
| "is_ingest c = False"

fun is_digest :: "call \<Rightarrow> bool" where
  "is_digest (CallDigest d) = True"
| "is_digest c = False"




text \<open>A worker is ready when \<open>init\<close> has completed successfully.\<close>

definition ready :: "worker \<Rightarrow> bool" where
  "ready w = (isInitialized w \<and> walletInstance w)"

text \<open>A run of the worker: one environment and one request per message, in order.\<close>

fun run :: "worker \<Rightarrow> (env \<times> request) list \<Rightarrow> response list \<times> worker" where
  "run w [] = ([], w)"
| "run w ((e, rq) # rest) =
     (case onmessage e w rq of
        (posted, w1) \<Rightarrow> (case run w1 rest of (ps, w2) \<Rightarrow> (posted # ps, w2)))"

subsection \<open>Sample environments and requests\<close>

definition sample_ingest_result :: ingest_result where
  "sample_ingest_result =
     \<lparr> ir_success = True, ir_txs_matched = Some 2, ir_txs_processed = Some 40,
       ir_balance_change = Some ''1500000000'', ir_stake_heights = Some [1200],
       ir_error = None \<rparr>"

definition sample_env :: env where
  "sample_env =
     \<lparr> now = 1700000000000,
       import_wasm = (\<lambda>v. True),
       new_WasmWallet = None,
       restore_from_seed = (\<lambda>seed pw. Inr ''restored''),
       parse_restore =
         (\<lambda>s. Inr \<lparr> rr_success = True, rr_address = Some ''SaLv1'', rr_error = None \<rparr>),
       sha256_hex =
         (\<lambda>d. Inr ''039058c6f2c0cb492c533b0a4d14ef77cc0f78abccced5287d84a1a2011cfb81''),
       allocate_binary_buffer = (\<lambda>n. 4096),
       heap_set = (\<lambda>d ptr. None),
       free_binary_buffer = (\<lambda>ptr. None),
       ingest_sparse_transactions = (\<lambda>ptr n h skip. Inr ''ingested''),
       parse_ingest = (\<lambda>s. Inr sample_ingest_result),
       get_balance = Inr ''balance'',
       parse_balance =
         (\<lambda>s. Inr \<lparr> br_balance = Some ''1500000000'', br_unlocked_balance = Some ''0'' \<rparr>),
       get_transfers_as_json = Inr ''transfers'',
       parse_transfers =
         (\<lambda>s. Inr (Some [\<lparr> tx_type = ''stake'', tx_height = 1200 \<rparr>,
                           \<lparr> tx_type = ''transfer'', tx_height = 1300 \<rparr>])) \<rparr>"

definition sample_payload :: payload where
  "sample_payload =
     \<lparr> p_wasmVersion = None, p_seedHex = ''00ff'', p_password = None,
       p_sparseData = [1, 2, 3], p_startHeight = Some 1000,
       p_batchId = JStr ''b1'', p_expectedHash = JUndefined \<rparr>"

definition init_request :: request where
  "init_request = \<lparr> q_type = ''init'', q_id = JNum 1, q_payload = sample_payload \<rparr>"

definition process_request :: "int \<Rightarrow> payload \<Rightarrow> request" where
  "process_request i p = \<lparr> q_type = ''process'', q_id = JNum i, q_payload = p \<rparr>"

definition query_request :: "string \<Rightarrow> int \<Rightarrow> request" where
  "query_request ty i = \<lparr> q_type = ty, q_id = JNum i, q_payload = sample_payload \<rparr>"

text \<open>The worker after a successful \<open>init\<close> and one successful batch \<open>b1\<close>.\<close>

definition sample_worker :: worker where
  "sample_worker =
     \<lparr> wasmModule = True, walletInstance = True, isInitialized = True,
       wasmVersion = ''3.5.15-parallel-phase2'',
       lastProcessedBatch =
         \<lparr> batch_id = JStr ''b1'', batch_height = 1000, batch_timestamp = 1700000000000 \<rparr>,
       calls = [CallImportWasm ''3.5.15-parallel-phase2'', CallNewWallet,
                CallRestore ''00ff'' [], CallAllocate 3 4096, CallHeapSet 4096,
                CallIngest 4096 3 1000 True, CallFree 4096] \<rparr>"

section \<open>The scan journal (services/ScanJournal)\<close>

text \<open>
  The tests of the scan journal are among the sources; the module they import,
  \<open>services/ScanJournal\<close>, is not. Its operations are modelled from the specification.
\<close>

subsection \<open>Gap detection\<close>

text \<open>Modelled from the spec: the alignment of \<open>detectGaps\<close> in services/ScanJournal, which
  is missing from the sources. ``Align \<open>startHeight\<close> down to the nearest multiple of
  \<open>chunkSize\<close>.''
\<close>

definition align_down :: "int \<Rightarrow> int \<Rightarrow> int" where
  "align_down h chunkSize = (h div chunkSize) * chunkSize"

text \<open>Modelled from the spec: the enumeration of the expected chunk-starts by
  \<open>detectGaps\<close> in services/ScanJournal, which is missing from the sources. ``Build the
  full expected set of chunk-starts in \<open>[aligned, endHeight)\<close> stepping by
  \<open>chunkSize\<close>; a chunk is included only if its start is strictly less than
  \<open>endHeight\<close>.'' The loop steps from \<open>h\<close>; with a chunk size that is not positive
  it would not advance, and the model yields no chunk.
\<close>

function expected_chunks :: "int \<Rightarrow> int \<Rightarrow> int \<Rightarrow> int list" where
  "expected_chunks h endHeight chunkSize =
     (if 0 < chunkSize \<and> h < endHeight
      then h # expected_chunks (h + chunkSize) endHeight chunkSize
      else [])"
  by pat_completeness auto
termination
  by (relation "measure (\<lambda>(h, endHeight, chunkSize). nat (endHeight - h))") auto

declare expected_chunks.simps [simp del]

text \<open>Modelled from the spec: \<open>detectGaps\<close> of services/ScanJournal, which is missing from
  the sources. ``Return, in ascending order, every expected chunk-start not present in
  \<open>scannedChunkStarts\<close>'', by set membership.
\<close>

definition detectGaps :: "int list \<Rightarrow> int \<Rightarrow> int \<Rightarrow> int \<Rightarrow> int list" where
  "detectGaps scannedChunkStarts startHeight endHeight chunkSize =
     filter (\<lambda>h. h \<notin> set scannedChunkStarts)
       (expected_chunks (align_down startHeight chunkSize) endHeight chunkSize)"

text \<open>
  The claim's own description of the expected chunk-starts, for comparison with what
  \<open>expected_chunks\<close> enumerates: the multiples of \<open>chunkSize\<close> in the right-open
  range from the aligned start to \<open>endHeight\<close>.
\<close>

definition expected_set :: "int \<Rightarrow> int \<Rightarrow> int \<Rightarrow> int set" where
  "expected_set startHeight endHeight chunkSize =
     {h. chunkSize dvd h \<and> align_down startHeight chunkSize \<le> h \<and> h < endHeight}"

subsection \<open>The journal and the checkpoint store\<close>

text \<open>Modelled from the spec: the phases of a journal entry of services/ScanJournal,
  which is missing from the sources: \<open>phase1\<close>, \<open>phase2\<close>, \<open>complete\<close>.\<close>

datatype scan_phase = Phase1 | Phase2 | Complete

text \<open>Modelled from the spec: the entry type \<open>ScanJournalEntry\<close> of services/ScanJournal,
  which is missing from the sources, with the fields of the data model.
\<close>

record ScanJournalEntry =
  je_walletAddress :: string
  je_startHeight :: int
  je_targetEndHeight :: int
  je_scannedChunks :: "int set"
  je_inProgressChunks :: "int set"
  je_matchedChunks :: "int set"
  je_phase :: scan_phase
  je_transactionsFound :: int
  je_errorCount :: int
  je_lastErrorMessage :: "string option"
  je_lastUpdateTimestamp :: int

text \<open>Modelled from the spec: the type \<open>ScanCheckpoint\<close> of services/ScanJournal, which is
  missing from the sources.
\<close>

record ScanCheckpoint =
  cp_lastCompletedHeight :: int
  cp_balanceAtCheckpoint :: int
  cp_heightAtCheckpoint :: int
  cp_timestamp :: int

text \<open>Modelled from the spec: the dirty buffer of services/ScanJournal, which is missing
  from the sources. Per scan: the staged chunk-starts, each tagged \<open>matched\<close>, and the
  pending transaction count.
\<close>

record pending_update =
  pu_chunks :: "(int \<times> bool) list"
  pu_txCount :: int

text \<open>Modelled from the spec: the state that services/ScanJournal (missing from the
  sources) works on. The durable store holds the journal, keyed by \<open>scanId\<close>, and the
  checkpoints, keyed by \<open>walletAddress\<close>; the dirty buffer is in memory only.
\<close>

record journal_state =
  journal_store :: "(string \<times> ScanJournalEntry) list"
  checkpoint_store :: "(string \<times> ScanCheckpoint) list"
  dirty :: "(string \<times> pending_update) list"

text \<open>Modelled from the spec: the stores of services/ScanJournal (missing from the
  sources) before anything is written, and a fresh read of the durable journal by
  \<open>scanId\<close>; ``absence is normal'', a missing entry is \<open>None\<close>.\<close>

definition empty_state :: journal_state where
  "empty_state = \<lparr> journal_store = [], checkpoint_store = [], dirty = [] \<rparr>"

definition read_journal :: "journal_state \<Rightarrow> string \<Rightarrow> ScanJournalEntry option" where
  "read_journal st scanId = map_of (journal_store st) scanId"

text \<open>Modelled from the spec: \<open>startScanJournal\<close> of services/ScanJournal, which is missing
  from the sources. It ``creates (or replaces) an entry with empty chunk sets,
  \<open>phase=phase1\<close>, zeroed counters, \<open>lastUpdateTimestamp=now\<close>''.
\<close>

definition startScanJournal ::
  "int \<Rightarrow> journal_state \<Rightarrow> string \<Rightarrow> string \<Rightarrow> int \<Rightarrow> int \<Rightarrow> journal_state" where
  "startScanJournal t st scanId walletAddress startHeight targetEndHeight =
     st \<lparr> journal_store :=
            AList.update scanId
              \<lparr> je_walletAddress = walletAddress, je_startHeight = startHeight,
                je_targetEndHeight = targetEndHeight, je_scannedChunks = {},
                je_inProgressChunks = {}, je_matchedChunks = {}, je_phase = Phase1,
                je_transactionsFound = 0, je_errorCount = 0, je_lastErrorMessage = None,
                je_lastUpdateTimestamp = t \<rparr>
              (journal_store st) \<rparr>"

text \<open>Modelled from the spec: the read of the dirty buffer of services/ScanJournal, which is
  missing from the sources. What is pending for a scan: nothing staged and a zero count
  when the buffer has no update for it.
\<close>

definition pending_of :: "journal_state \<Rightarrow> string \<Rightarrow> pending_update" where
  "pending_of st scanId =
     (case map_of (dirty st) scanId of
        None \<Rightarrow> \<lparr> pu_chunks = [], pu_txCount = 0 \<rparr>
      | Some pu \<Rightarrow> pu)"

text \<open>Modelled from the spec: \<open>recordScannedChunks\<close> of services/ScanJournal, which is
  missing from the sources. It ``stages chunk-starts into an in-memory dirty buffer
  tagged \<open>matched\<close>, and accumulates \<open>txCount\<close> into a pending counter. Not durable
  until flushed.''
\<close>

definition recordScannedChunks ::
  "journal_state \<Rightarrow> string \<Rightarrow> int list \<Rightarrow> bool \<Rightarrow> int \<Rightarrow> journal_state" where
  "recordScannedChunks st scanId chunkStarts matched txCount =
     (let old = pending_of st scanId
      in st \<lparr> dirty :=
                AList.update scanId
                  \<lparr> pu_chunks = pu_chunks old @ map (\<lambda>c. (c, matched)) chunkStarts,
                    pu_txCount = pu_txCount old + txCount \<rparr>
                  (dirty st) \<rparr>)"

text \<open>Modelled from the spec: the write of one scan's pending update by
  \<open>flushPendingUpdates\<close> of services/ScanJournal, which is missing from the sources:
  the staged chunk-starts join \<open>scannedChunks\<close>, those tagged \<open>matched\<close> join
  \<open>matchedChunks\<close>, the pending count is added to \<open>transactionsFound\<close>.
\<close>

definition flush_entry :: "int \<Rightarrow> pending_update \<Rightarrow> ScanJournalEntry \<Rightarrow> ScanJournalEntry" where
  "flush_entry t pu entry =
     entry \<lparr> je_scannedChunks := je_scannedChunks entry \<union> fst ` set (pu_chunks pu),
             je_matchedChunks :=
               je_matchedChunks entry \<union> fst ` set (filter snd (pu_chunks pu)),
             je_transactionsFound := je_transactionsFound entry + pu_txCount pu,
             je_lastUpdateTimestamp := t \<rparr>"

text \<open>Modelled from the spec: one step of \<open>flushPendingUpdates\<close> of services/ScanJournal,
  which is missing from the sources: the entry of one scan is read, changed and written
  back. The spec does not say what a flush does with a pending update whose entry is
  gone; the model drops it.
\<close>

definition apply_pending ::
  "int \<Rightarrow> string \<times> pending_update \<Rightarrow> (string \<times> ScanJournalEntry) list
     \<Rightarrow> (string \<times> ScanJournalEntry) list" where
  "apply_pending t kp js =
     (case map_of js (fst kp) of
        None \<Rightarrow> js
      | Some entry \<Rightarrow> AList.update (fst kp) (flush_entry t (snd kp) entry) js)"

text \<open>Modelled from the spec: \<open>flushPendingUpdates\<close> of services/ScanJournal, which is
  missing from the sources. It ``persists all buffered mutations across all sessions
  with pending data, atomically per scanId entry. Clears the buffer on success.''
\<close>

definition flushPendingUpdates :: "int \<Rightarrow> journal_state \<Rightarrow> journal_state" where
  "flushPendingUpdates t st =
     st \<lparr> journal_store := fold (apply_pending t) (dirty st) (journal_store st),
          dirty := [] \<rparr>"

text \<open>Modelled from the spec: \<open>getIncompleteJournal\<close> and \<open>getCheckpoint\<close> of
  services/ScanJournal, which is missing from the sources: ``read-only; return
  empty/undefined when absent''.
\<close>

definition getIncompleteJournal :: "journal_state \<Rightarrow> string \<Rightarrow> ScanJournalEntry option" where
  "getIncompleteJournal st walletAddress =
     map_option snd
       (find (\<lambda>kv. je_walletAddress (snd kv) = walletAddress \<and> je_phase (snd kv) \<noteq> Complete)
          (journal_store st))"

definition getCheckpoint :: "journal_state \<Rightarrow> string \<Rightarrow> ScanCheckpoint option" where
  "getCheckpoint st walletAddress = map_of (checkpoint_store st) walletAddress"

subsection \<open>Recovery validation\<close>

text \<open>Modelled from the spec: the contiguous-from-start frontier of \<open>validateAndResume\<close>
  in services/ScanJournal, which is missing from the sources: ``the largest height
  \<open>H\<close> such that every chunk-start in \<open>[alignedStart, H)\<close> is present in
  \<open>scannedChunks\<close>'', looked for up to the target height.
\<close>

function frontier :: "int set \<Rightarrow> int \<Rightarrow> int \<Rightarrow> int \<Rightarrow> int" where
  "frontier scanned h targetEndHeight chunkSize =
     (if 0 < chunkSize \<and> h < targetEndHeight \<and> h \<in> scanned
      then frontier scanned (h + chunkSize) targetEndHeight chunkSize
      else h)"
  by pat_completeness auto
termination
  by (relation "measure (\<lambda>(scanned, h, targetEndHeight, chunkSize). nat (targetEndHeight - h))")
    auto

declare frontier.simps [simp del]

text \<open>Modelled from the spec: the result of \<open>validateAndResume\<close> of
  services/ScanJournal, which is missing from the sources.\<close>

record resume_decision =
  canResume :: bool
  needsFullRescan :: bool
  lastCompletedHeight :: int

text \<open>Modelled from the spec: \<open>validateAndResume\<close> of services/ScanJournal, which is
  missing from the sources. ``Resume is permitted only up to this frontier [...] unless
  no prior journal/checkpoint exists at all, in which case \<open>needsFullRescan=true\<close>,
  \<open>canResume=false\<close>, \<open>lastCompletedHeight=0\<close>.'' With a checkpoint and no
  unfinished journal, the model resumes from the checkpoint.
\<close>

definition validateAndResume ::
  "journal_state \<Rightarrow> string \<Rightarrow> int \<Rightarrow> int \<Rightarrow> resume_decision" where
  "validateAndResume st walletAddress targetEndHeight chunkSize =
     (case getIncompleteJournal st walletAddress of
        Some entry \<Rightarrow>
          \<lparr> canResume = True, needsFullRescan = False,
            lastCompletedHeight =
              frontier (je_scannedChunks entry)
                (align_down (je_startHeight entry) chunkSize) targetEndHeight chunkSize \<rparr>
      | None \<Rightarrow>
          (case getCheckpoint st walletAddress of
             Some cp \<Rightarrow>
               \<lparr> canResume = True, needsFullRescan = False,
                 lastCompletedHeight = cp_lastCompletedHeight cp \<rparr>
           | None \<Rightarrow>
               \<lparr> canResume = False, needsFullRescan = True, lastCompletedHeight = 0 \<rparr>))"

section \<open>Sample runs of the worker\<close>

text \<open>A request whose \<open>expectedHash\<close> is not the digest of its data.\<close>

definition tampered_request :: request where
  "tampered_request =
     process_request 3
       (sample_payload \<lparr> p_startHeight := Some 2000, p_batchId := JStr ''b2'',
                         p_expectedHash := JStr ''ffff'' \<rparr>)"

text \<open>An engine that rejects the seed: \<open>restore_from_seed\<close> replies \<open>success:false\<close>.\<close>

definition rejecting_env :: env where
  "rejecting_env =
     sample_env \<lparr> parse_restore :=
       (\<lambda>s. Inr \<lparr> rr_success = False, rr_address = None, rr_error = Some ''Invalid seed'' \<rparr>) \<rparr>"

text \<open>The worker after an \<open>init\<close> that the engine rejected.\<close>

definition rejected_worker :: worker where
  "rejected_worker = snd (onmessage rejecting_env initial_worker init_request)"

text \<open>An engine whose ingestion throws.\<close>

definition throwing_env :: env where
  "throwing_env =
     sample_env \<lparr> ingest_sparse_transactions :=
       (\<lambda>ptr n h skip. Inl (Error ''memory access out of bounds'')) \<rparr>"

text \<open>An engine whose release of the buffer throws.\<close>

definition free_throwing_env :: env where
  "free_throwing_env =
     sample_env \<lparr> free_binary_buffer := (\<lambda>ptr. Some (Error ''free failed'')) \<rparr>"

text \<open>The next batch \<open>b2\<close>, at height 2000, without a hash.\<close>

definition next_request :: request where
  "next_request =
     process_request 3
       (sample_payload \<lparr> p_startHeight := Some 2000, p_batchId := JStr ''b2'' \<rparr>)"

section \<open>A sample run of the journal\<close>

text \<open>Scenario 3 of the specification, up to the flush: a journal is started and two
  matched chunks with five transactions are recorded.\<close>

definition recorded_state :: journal_state where
  "recorded_state =
     recordScannedChunks (startScanJournal 100 empty_state ''s1'' ''w1'' 0 10000)
       ''s1'' [0, 1000] True 5"

section \<open>Properties of the worker\<close>

subsection \<open>Evaluation and the call log\<close>

lemmas worker_defs = onmessage_def dispatch_def loadWasm_def initWallet_def
  processSparseData_def ingest_block_def verifySparseDataIntegrity_def record_call_def
  message_def js_or_def Let_def

lemmas sample_defs = sample_worker_def initial_worker_def sample_env_def init_request_def
  process_request_def query_request_def sample_payload_def sample_ingest_result_def
  tampered_request_def rejecting_env_def throwing_env_def free_throwing_env_def
  next_request_def

lemma calls_record_call: "calls (record_call c w) = calls w @ [c]"
  by (simp add: record_call_def)

text \<open>The sample worker is the state after a successful \<open>init\<close> and one batch.\<close>

lemma sample_worker_reachable:
  "snd (run initial_worker
          [(sample_env, init_request), (sample_env, process_request 2 sample_payload)])
   = sample_worker"
  by (simp add: sample_defs worker_defs)

lemma sample_worker_ready: "ready sample_worker"
  by (simp add: ready_def sample_worker_def)

lemma rejected_worker_eq:
  "rejected_worker =
     \<lparr> wasmModule = True, walletInstance = True, isInitialized = False,
       wasmVersion = ''3.5.15-parallel-phase2'',
       lastProcessedBatch = \<lparr> batch_id = JNull, batch_height = 0, batch_timestamp = 0 \<rparr>,
       calls = [CallImportWasm ''3.5.15-parallel-phase2'', CallNewWallet,
                CallRestore ''00ff'' []] \<rparr>"
  by (simp add: rejected_worker_def sample_defs worker_defs)

lemma ingest_block_calls:
  "\<exists>mid. calls (snd (ingest_block e w d h b ptr)) = calls w @ CallHeapSet ptr # mid
        \<and> CallFree ptr \<notin> set mid \<and> (\<forall>n q. CallAllocate n q \<notin> set mid)"
  by (auto simp: ingest_block_def record_call_def Let_def split: option.splits sum.splits)

subsection \<open>The two ways a message is answered\<close>

lemma onmessage_posted:
  "dispatch e w (q_type rq) (q_id rq) (q_payload rq) = (Inr posted, w1)
   \<Longrightarrow> onmessage e w rq = (posted, w1)"
  by (simp add: onmessage_def)

lemma onmessage_caught:
  "dispatch e w (q_type rq) (q_id rq) (q_payload rq) = (Inl err, w1)
   \<Longrightarrow> onmessage e w rq =
        ((message (q_type rq @ ''_result'') (q_id rq))
           \<lparr> r_success := Some False, r_error := Some (error_text err) \<rparr>, w1)"
  by (simp add: onmessage_def)

lemma dispatch_init:
  "dispatch e w ''init'' i p = (Inr posted, w1)
   \<Longrightarrow> r_type posted = ''init_result'' \<and> r_id posted = i \<and> r_success posted = Some True"
  by (auto simp: dispatch_def message_def split: prod.splits sum.splits if_splits)

lemma dispatch_process:
  "dispatch e w ''process'' i p = (Inr posted, w1)
   \<Longrightarrow> r_type posted = ''process_result'' \<and> r_id posted = i \<and> r_success posted \<noteq> None
       \<and> r_lastSuccessfulBatch posted = Some (lastProcessedBatch w1)"
  by (auto simp: dispatch_def message_def split: prod.splits sum.splits)

lemma dispatch_get_checkpoint:
  "dispatch e w ''get_checkpoint'' i p = (r, w1)
   \<Longrightarrow> \<exists>posted. r = Inr posted \<and> r_type posted = ''checkpoint_result'' \<and> r_id posted = i
         \<and> r_success posted = None \<and> r_lastProcessedBatch posted = Some (lastProcessedBatch w)"
  by (auto simp: dispatch_def message_def)

lemma dispatch_get_balance:
  "dispatch e w ''get_balance'' i p = (Inr posted, w1)
   \<Longrightarrow> r_type posted = ''balance_result'' \<and> r_id posted = i \<and> r_success posted = None"
  by (auto simp: dispatch_def message_def Let_def split: sum.splits if_splits)

lemma dispatch_get_stake_heights:
  "dispatch e w ''get_stake_heights'' i p = (Inr posted, w1)
   \<Longrightarrow> r_type posted = ''stake_heights_result'' \<and> r_id posted = i \<and> r_success posted = None"
  by (auto simp: dispatch_def message_def Let_def split: sum.splits if_splits)

lemma dispatch_unknown:
  "ty \<notin> {''init'', ''process'', ''get_checkpoint'', ''get_balance'', ''get_stake_heights''}
   \<Longrightarrow> dispatch e w ty i p = (Inl (Error (''Unknown message type: '' @ ty)), w)"
  by (simp add: dispatch_def)

text \<open>A \<open>process\<close> request is answered from what \<open>processSparseData\<close> returns or throws.\<close>

lemma dispatch_process_eq:
  "dispatch e w ''process'' i p =
     (case processSparseData e w (p_sparseData p) (num_or (p_startHeight p) 0)
             (p_batchId p) (p_expectedHash p) of
        (Inl err, w1) \<Rightarrow> (Inl err, w1)
      | (Inr result, w1) \<Rightarrow>
          (Inr ((message ''process_result'' i)
                  \<lparr> r_success := Some (ir_success result),
                    r_txsMatched := Some (num_or (ir_txs_matched result) 0),
                    r_txsProcessed := Some (num_or (ir_txs_processed result) 0),
                    r_balanceChange := Some (str_or (ir_balance_change result) ''0''),
                    r_stakeHeights := Some (list_or (ir_stake_heights result) []),
                    r_error := ir_error result,
                    r_lastSuccessfulBatch := Some (lastProcessedBatch w1) \<rparr>),
           w1))"
  by (simp add: dispatch_def)

subsection \<open>Integrity verification fails closed\<close>

lemma process_bad_hash:
  assumes provided: "truthy x"
    and bad: "(\<exists>hx. sha256_hex e d = Inr hx \<and> JStr hx \<noteq> x) \<or> (\<exists>err. sha256_hex e d = Inl err)"
  shows "processSparseData e w d h b x =
     (if \<not> ready w then (Inl (Error ''Wallet not initialized''), w)
      else case sha256_hex e d of
         Inl err \<Rightarrow> (Inl (Error ''Cryptographic verification failed - cannot proceed safely''),
                    record_call (CallDigest d) w)
       | Inr hx \<Rightarrow> (Inl (Error ''Sparse data integrity check failed''),
                    record_call (CallDigest d) w))"
  using assms
  by (auto simp: processSparseData_def verifySparseDataIntegrity_def ready_def split: sum.splits)

text \<open>
  Claim C1. A \<open>process\<close> request whose \<open>expectedHash\<close> is provided, and whose data has a
  SHA-256 digest that differs from it or cannot be computed, is answered with
  \<open>success:false\<close>; on a ready worker, where the digest is computed, the error is one of
  the two integrity errors (before \<open>init\<close> the call has already failed with
  \<open>Wallet not initialized\<close>, without computing a digest). In either case the ingestion
  entry point is not called and the batch marker stays as it was.
\<close>

theorem process_bad_hash_fails_closed:
  assumes ty: "q_type rq = ''process''"
    and provided: "truthy (p_expectedHash (q_payload rq))"
    and bad: "(\<exists>hx. sha256_hex e (p_sparseData (q_payload rq)) = Inr hx
                 \<and> JStr hx \<noteq> p_expectedHash (q_payload rq))
              \<or> (\<exists>err. sha256_hex e (p_sparseData (q_payload rq)) = Inl err)"
  shows "r_type (fst (onmessage e w rq)) = ''process_result''
       \<and> r_id (fst (onmessage e w rq)) = q_id rq
       \<and> r_success (fst (onmessage e w rq)) = Some False
       \<and> (ready w \<longrightarrow> r_error (fst (onmessage e w rq)) \<in>
             {Some ''Sparse data integrity check failed'',
              Some ''Cryptographic verification failed - cannot proceed safely''})
       \<and> (\<not> ready w \<longrightarrow>
             r_error (fst (onmessage e w rq)) = Some ''Wallet not initialized'')
       \<and> (\<forall>c \<in> set (new_calls w (snd (onmessage e w rq))). \<not> is_ingest c)
       \<and> lastProcessedBatch (snd (onmessage e w rq)) = lastProcessedBatch w"
  using ty
  by (auto simp: onmessage_def dispatch_def process_bad_hash[OF provided bad] message_def
      new_calls_def record_call_def split: sum.splits)

theorem process_bad_hash_fails_closed_witness:
  "r_type (fst (onmessage sample_env sample_worker tampered_request)) = ''process_result''
   \<and> r_success (fst (onmessage sample_env sample_worker tampered_request)) = Some False
   \<and> r_error (fst (onmessage sample_env sample_worker tampered_request))
       = Some ''Sparse data integrity check failed''
   \<and> filter is_ingest
        (new_calls sample_worker (snd (onmessage sample_env sample_worker tampered_request))) = []
   \<and> lastProcessedBatch (snd (onmessage sample_env sample_worker tampered_request))
       = lastProcessedBatch sample_worker"
proof -
  have ty: "q_type tampered_request = ''process''"
    by (simp add: tampered_request_def process_request_def)
  have provided: "truthy (p_expectedHash (q_payload tampered_request))"
    by (simp add: tampered_request_def process_request_def)
  have bad: "(\<exists>hx. sha256_hex sample_env (p_sparseData (q_payload tampered_request)) = Inr hx
                 \<and> JStr hx \<noteq> p_expectedHash (q_payload tampered_request))
              \<or> (\<exists>err. sha256_hex sample_env (p_sparseData (q_payload tampered_request)) = Inl err)"
    by (simp add: tampered_request_def process_request_def sample_env_def)
  have err: "r_error (fst (onmessage sample_env sample_worker tampered_request))
       = Some ''Sparse data integrity check failed''"
    by (simp add: sample_defs worker_defs)
  from process_bad_hash_fails_closed[OF ty provided bad, of sample_worker] err
  show ?thesis by (simp add: filter_empty_conv)
qed

subsection \<open>The marker in the answers to \<open>process\<close>\<close>

text \<open>
  When \<open>processSparseData\<close> returns, with the engine reporting success or failure, the
  answer carries the marker; when it throws, the answer is the one of the \<open>catch\<close>
  handler, which has no \<open>lastSuccessfulBatch\<close>.
\<close>

lemma returned_process_carries_marker:
  assumes "q_type rq = ''process''"
    and "processSparseData e w (p_sparseData (q_payload rq))
           (num_or (p_startHeight (q_payload rq)) 0) (p_batchId (q_payload rq))
           (p_expectedHash (q_payload rq)) = (Inr result, w1)"
  shows "r_lastSuccessfulBatch (fst (onmessage e w rq)) = Some (lastProcessedBatch w1)
       \<and> r_success (fst (onmessage e w rq)) = Some (ir_success result)"
  using assms by (simp add: onmessage_def dispatch_process_eq message_def)

lemma thrown_process_has_no_marker:
  assumes "q_type rq = ''process''"
    and "processSparseData e w (p_sparseData (q_payload rq))
           (num_or (p_startHeight (q_payload rq)) 0) (p_batchId (q_payload rq))
           (p_expectedHash (q_payload rq)) = (Inl err, w1)"
  shows "r_lastSuccessfulBatch (fst (onmessage e w rq)) = None
       \<and> r_success (fst (onmessage e w rq)) = Some False"
  using assms by (simp add: onmessage_def dispatch_process_eq message_def)

text \<open>
  Claim C2. Every answer to a \<open>process\<close> request should carry \<open>lastSuccessfulBatch\<close>.
  The worker has processed batch \<open>b1\<close>; the next request fails the integrity check. The
  answer is \<open>success:false\<close> with the integrity error and has no
  \<open>lastSuccessfulBatch\<close> field, although the marker of \<open>b1\<close> is in the worker.
\<close>

theorem thrown_failure_drops_marker:
  "r_success (fst (onmessage sample_env sample_worker tampered_request)) = Some False
   \<and> r_error (fst (onmessage sample_env sample_worker tampered_request))
       = Some ''Sparse data integrity check failed''
   \<and> r_lastSuccessfulBatch (fst (onmessage sample_env sample_worker tampered_request)) = None
   \<and> lastProcessedBatch sample_worker
       = \<lparr> batch_id = JStr ''b1'', batch_height = 1000, batch_timestamp = 1700000000000 \<rparr>"
  by (simp add: sample_defs worker_defs)

subsection \<open>The envelope of the answers\<close>

text \<open>
  Claim C6, as stated, at a \<open>get_checkpoint\<close>, a \<open>get_balance\<close> and a
  \<open>get_stake_heights\<close> request on the sample worker: the type of the answer is not the
  request type followed by \<open>_result\<close>, and the answer has no \<open>success\<close> field.
\<close>

theorem short_result_types_counterexample:
  "r_type (fst (onmessage sample_env sample_worker (query_request ''get_checkpoint'' 4)))
     = ''checkpoint_result''
   \<and> r_type (fst (onmessage sample_env sample_worker (query_request ''get_checkpoint'' 4)))
     \<noteq> q_type (query_request ''get_checkpoint'' 4) @ ''_result''
   \<and> r_success (fst (onmessage sample_env sample_worker (query_request ''get_checkpoint'' 4)))
     = None
   \<and> r_type (fst (onmessage sample_env sample_worker (query_request ''get_balance'' 5)))
     = ''balance_result''
   \<and> r_success (fst (onmessage sample_env sample_worker (query_request ''get_balance'' 5)))
     = None
   \<and> r_type (fst (onmessage sample_env sample_worker (query_request ''get_stake_heights'' 6)))
     = ''stake_heights_result''
   \<and> r_success (fst (onmessage sample_env sample_worker (query_request ''get_stake_heights'' 6)))
     = None"
  by (simp add: sample_defs worker_defs)

text \<open>
  Claim C6, amended. Every answer echoes the id of the request. The answer to an
  \<open>init\<close> or \<open>process\<close> request, to a request of an unknown type, and every answer of
  the \<open>catch\<close> handler has the request type followed by \<open>_result\<close> as its type and a
  \<open>success\<close> field. A \<open>get_checkpoint\<close> request is always answered with type
  \<open>checkpoint_result\<close> and no \<open>success\<close> field; a \<open>get_balance\<close> or
  \<open>get_stake_heights\<close> request that does not throw is answered with type
  \<open>balance_result\<close> or \<open>stake_heights_result\<close> and no \<open>success\<close> field.
\<close>

theorem response_envelope:
  "r_id (fst (onmessage e w rq)) = q_id rq
   \<and> (q_type rq \<notin> {''get_checkpoint'', ''get_balance'', ''get_stake_heights''}
        \<longrightarrow> r_type (fst (onmessage e w rq)) = q_type rq @ ''_result''
          \<and> r_success (fst (onmessage e w rq)) \<noteq> None)
   \<and> (q_type rq = ''get_checkpoint''
        \<longrightarrow> r_type (fst (onmessage e w rq)) = ''checkpoint_result''
          \<and> r_success (fst (onmessage e w rq)) = None)
   \<and> (q_type rq = ''get_balance''
        \<longrightarrow> (r_type (fst (onmessage e w rq)) = ''balance_result''
             \<and> r_success (fst (onmessage e w rq)) = None)
          \<or> (r_type (fst (onmessage e w rq)) = ''get_balance_result''
             \<and> r_success (fst (onmessage e w rq)) = Some False
             \<and> r_error (fst (onmessage e w rq)) \<noteq> None))
   \<and> (q_type rq = ''get_stake_heights''
        \<longrightarrow> (r_type (fst (onmessage e w rq)) = ''stake_heights_result''
             \<and> r_success (fst (onmessage e w rq)) = None)
          \<or> (r_type (fst (onmessage e w rq)) = ''get_stake_heights_result''
             \<and> r_success (fst (onmessage e w rq)) = Some False
             \<and> r_error (fst (onmessage e w rq)) \<noteq> None))"
proof -
  obtain r w1 where d: "dispatch e w (q_type rq) (q_id rq) (q_payload rq) = (r, w1)"
    by (cases "dispatch e w (q_type rq) (q_id rq) (q_payload rq)")
  show ?thesis
  proof (cases r)
    case (Inl err)
    with d have "fst (onmessage e w rq) =
        (message (q_type rq @ ''_result'') (q_id rq))
           \<lparr> r_success := Some False, r_error := Some (error_text err) \<rparr>"
      by (simp add: onmessage_caught)
    moreover have "q_type rq \<noteq> ''get_checkpoint''"
      using d Inl dispatch_get_checkpoint[of e w "q_id rq" "q_payload rq" r w1] by auto
    ultimately show ?thesis by (simp add: message_def)
  next
    case (Inr posted)
    with d have p: "fst (onmessage e w rq) = posted" by (simp add: onmessage_posted)
    consider (init) "q_type rq = ''init''" | (process) "q_type rq = ''process''"
      | (checkpoint) "q_type rq = ''get_checkpoint''" | (balance) "q_type rq = ''get_balance''"
      | (stake) "q_type rq = ''get_stake_heights''"
      | (unknown) "q_type rq \<notin> {''init'', ''process'', ''get_checkpoint'', ''get_balance'',
                                  ''get_stake_heights''}"
      by blast
    then show ?thesis
    proof cases
      case init
      with d Inr dispatch_init[of e w "q_id rq" "q_payload rq" posted w1] p
      show ?thesis by simp
    next
      case process
      with d Inr dispatch_process[of e w "q_id rq" "q_payload rq" posted w1] p
      show ?thesis by simp
    next
      case checkpoint
      with d Inr dispatch_get_checkpoint[of e w "q_id rq" "q_payload rq" r w1] p
      show ?thesis by auto
    next
      case balance
      with d Inr dispatch_get_balance[of e w "q_id rq" "q_payload rq" posted w1] p
      show ?thesis by simp
    next
      case stake
      with d Inr dispatch_get_stake_heights[of e w "q_id rq" "q_payload rq" posted w1] p
      show ?thesis by simp
    next
      case unknown
      with d Inr dispatch_unknown[of "q_type rq" e w "q_id rq" "q_payload rq"]
      show ?thesis by simp
    qed
  qed
qed

theorem response_envelope_witness:
  "r_id (fst (onmessage sample_env sample_worker (process_request 2 sample_payload))) = JNum 2
   \<and> r_type (fst (onmessage sample_env sample_worker (process_request 2 sample_payload)))
       = ''process_result''
   \<and> r_success (fst (onmessage sample_env sample_worker (process_request 2 sample_payload)))
       = Some True"
proof -
  have ty: "q_type (process_request 2 sample_payload)
              \<notin> {''get_checkpoint'', ''get_balance'', ''get_stake_heights''}"
    by (simp add: process_request_def)
  have ok: "r_success (fst (onmessage sample_env sample_worker (process_request 2 sample_payload)))
       = Some True"
    by (simp add: sample_defs worker_defs)
  from response_envelope[of sample_env sample_worker "process_request 2 sample_payload"] ty ok
  show ?thesis by (simp add: process_request_def)
qed

subsection \<open>Requests before a successful \<open>init\<close>\<close>

text \<open>
  A \<open>process\<close> request on a worker that is not ready fails with
  \<open>Wallet not initialized\<close> and leaves the worker, its marker and its call log
  included, as it was.
\<close>

lemma process_before_init:
  assumes "q_type rq = ''process''" and "\<not> ready w"
  shows "onmessage e w rq =
           ((message ''process_result'' (q_id rq))
              \<lparr> r_success := Some False, r_error := Some ''Wallet not initialized'' \<rparr>, w)"
  using assms by (auto simp: onmessage_def dispatch_def processSparseData_def ready_def)

text \<open>
  \<open>get_balance\<close> and \<open>get_stake_heights\<close> test \<open>walletInstance\<close> alone: without a
  wallet object they fail in the same way.
\<close>

lemma query_without_wallet:
  assumes "q_type rq = ''get_balance'' \<or> q_type rq = ''get_stake_heights''"
    and "\<not> walletInstance w"
  shows "onmessage e w rq =
           ((message (q_type rq @ ''_result'') (q_id rq))
              \<lparr> r_success := Some False, r_error := Some ''Wallet not initialized'' \<rparr>, w)"
  using assms by (auto simp: onmessage_def dispatch_def)

text \<open>
  Claim C7. A \<open>get_balance\<close> request before \<open>init\<close> has completed successfully should
  fail without invoking the engine. The engine rejects the seed, so \<open>init\<close> is answered
  with \<open>success:false\<close> and \<open>isInitialized\<close> stays false; \<open>initWallet\<close> has stored
  the wallet object before the restore. The \<open>get_balance\<close> request that follows is not
  refused: the engine's \<open>get_balance\<close> is called and a \<open>balance_result\<close> is posted.
  A \<open>process\<close> request in the same state is refused.
\<close>

theorem rejected_init_still_serves_balance:
  "r_success (fst (onmessage rejecting_env initial_worker init_request)) = Some False
   \<and> isInitialized rejected_worker = False
   \<and> r_type (fst (onmessage sample_env rejected_worker (query_request ''get_balance'' 2)))
       = ''balance_result''
   \<and> r_error (fst (onmessage sample_env rejected_worker (query_request ''get_balance'' 2))) = None
   \<and> r_balance (fst (onmessage sample_env rejected_worker (query_request ''get_balance'' 2)))
       = Some ''1500000000''
   \<and> new_calls rejected_worker
        (snd (onmessage sample_env rejected_worker (query_request ''get_balance'' 2)))
       = [CallGetBalance]
   \<and> r_error (fst (onmessage sample_env rejected_worker (process_request 3 sample_payload)))
       = Some ''Wallet not initialized''"
  by (simp add: rejected_worker_eq new_calls_def) (simp add: sample_defs worker_defs)

subsection \<open>The batch marker\<close>









subsection \<open>The engine-heap buffer\<close>

text \<open>A \<open>process\<close> request leaves the worker as \<open>processSparseData\<close> leaves it.\<close>

lemma process_request_state:
  "q_type rq = ''process'' \<Longrightarrow>
   snd (onmessage e w rq) =
     snd (processSparseData e w (p_sparseData (q_payload rq))
            (num_or (p_startHeight (q_payload rq)) 0) (p_batchId (q_payload rq))
            (p_expectedHash (q_payload rq)))"
  by (simp add: onmessage_def dispatch_process_eq split: prod.splits sum.splits)

text \<open>
  Claim C9. When a call of \<open>processSparseData\<close> allocates a buffer (the allocation
  returns a pointer that is not null), the calls it makes end with the release of that
  buffer, whatever happens in between: the copy to the heap throws, the ingestion
  throws, its reply does not parse, it reports a failure, or it succeeds. The buffer is
  released once.
\<close>

theorem buffer_freed_on_every_exit:
  assumes alloc: "CallAllocate n ptr \<in> set (new_calls w (snd (processSparseData e w d h b x)))"
    and ok: "ptr \<noteq> 0"
  shows "\<exists>pre mid. new_calls w (snd (processSparseData e w d h b x))
                     = pre @ CallAllocate n ptr # mid @ [CallFree ptr]
                   \<and> CallFree ptr \<notin> set mid \<and> CallFree ptr \<notin> set pre"
proof -
  let ?p = "allocate_binary_buffer e (length d)"
  show ?thesis
  proof (cases "\<not> isInitialized w \<or> \<not> walletInstance w")
    case True
    then show ?thesis using alloc by (auto simp: processSparseData_def new_calls_def)
  next
    case rdy: False
    obtain v w1 where
      v: "(if truthy x then verifySparseDataIntegrity e w d x else (Inr True, w)) = (v, w1)"
      by (cases "(if truthy x then verifySparseDataIntegrity e w d x else (Inr True, w))") auto
    have "\<exists>pre. calls w1 = calls w @ pre \<and> (\<forall>n q. CallAllocate n q \<notin> set pre)
                \<and> (\<forall>q. CallFree q \<notin> set pre)"
      using v
      by (auto simp: verifySparseDataIntegrity_def record_call_def split: if_splits sum.splits)
    then obtain pre where pre: "calls w1 = calls w @ pre" "\<forall>n q. CallAllocate n q \<notin> set pre"
      "\<forall>q. CallFree q \<notin> set pre"
      by blast
    show ?thesis
    proof (cases "v = Inr True \<and> ?p \<noteq> 0")
      case False
      then have "\<forall>n q. CallAllocate n q
                   \<in> set (new_calls w (snd (processSparseData e w d h b x))) \<longrightarrow> q = 0"
        using rdy v pre
        by (cases v) (auto simp: processSparseData_def new_calls_def record_call_def Let_def)
      with alloc ok show ?thesis by blast
    next
      case True
      let ?w2 = "record_call (CallAllocate (length d) ?p) w1"
      obtain mid where
        mid: "calls (snd (ingest_block e ?w2 d h b ?p)) = calls ?w2 @ CallHeapSet ?p # mid"
          "CallFree ?p \<notin> set mid" "\<forall>n q. CallAllocate n q \<notin> set mid"
        using ingest_block_calls[of e ?w2 d h b ?p] by blast
      have new: "new_calls w (snd (processSparseData e w d h b x))
                 = pre @ CallAllocate (length d) ?p # (CallHeapSet ?p # mid) @ [CallFree ?p]"
        using rdy v True pre mid
        by (auto simp: processSparseData_def new_calls_def record_call_def Let_def
            split: prod.splits option.splits)
      from alloc new pre(2) mid(3) have "n = length d \<and> ptr = ?p" by auto
      with new mid(2) pre(3) show ?thesis
        by (intro exI[of _ pre] exI[of _ "CallHeapSet ?p # mid"]) auto
    qed
  qed
qed

theorem buffer_freed_on_every_exit_witness:
  "fst (processSparseData throwing_env sample_worker [1, 2, 3] 2000 (JStr ''b2'') JUndefined)
     = Inl (Error ''memory access out of bounds'')
   \<and> new_calls sample_worker
        (snd (processSparseData throwing_env sample_worker [1, 2, 3] 2000 (JStr ''b2'')
                JUndefined))
     = [CallAllocate 3 4096, CallHeapSet 4096, CallIngest 4096 3 2000 True, CallFree 4096]
   \<and> (\<exists>pre mid.
        new_calls sample_worker
          (snd (processSparseData throwing_env sample_worker [1, 2, 3] 2000 (JStr ''b2'')
                  JUndefined))
        = pre @ CallAllocate 3 4096 # mid @ [CallFree 4096]
        \<and> CallFree 4096 \<notin> set mid \<and> CallFree 4096 \<notin> set pre)"
proof -
  have new: "new_calls sample_worker
        (snd (processSparseData throwing_env sample_worker [1, 2, 3] 2000 (JStr ''b2'')
                JUndefined))
     = [CallAllocate 3 4096, CallHeapSet 4096, CallIngest 4096 3 2000 True, CallFree 4096]"
    by (simp add: new_calls_def sample_defs worker_defs)
  have thrown: "fst (processSparseData throwing_env sample_worker [1, 2, 3] 2000
        (JStr ''b2'') JUndefined) = Inl (Error ''memory access out of bounds'')"
    by (simp add: sample_defs worker_defs)
  have alloc: "CallAllocate 3 4096 \<in> set (new_calls sample_worker
        (snd (processSparseData throwing_env sample_worker [1, 2, 3] 2000 (JStr ''b2'')
                JUndefined)))"
    by (simp add: new)
  have ok: "(4096::nat) \<noteq> 0" by simp
  from buffer_freed_on_every_exit[OF alloc ok] new thrown show ?thesis by simp
qed

subsection \<open>Verification is opt-in\<close>

text \<open>
  Claim C10. When \<open>expectedHash\<close> is absent (\<open>undefined\<close>, \<open>null\<close>, the empty
  string; any falsy value), \<open>processSparseData\<close> computes no digest, what it does is
  the same whatever the digest of the data would have been, and on a ready worker whose
  allocation and copy to the heap succeed the ingestion entry point is called with the
  buffer, the start height and \<open>skip_prefilter = true\<close>.
\<close>

theorem absent_hash_skips_verification:
  assumes absent: "\<not> truthy x"
  shows "(\<forall>c \<in> set (new_calls w (snd (processSparseData e w d h b x))). \<not> is_digest c)
       \<and> (\<forall>g. processSparseData (e \<lparr> sha256_hex := g \<rparr>) w d h b x
              = processSparseData e w d h b x)
       \<and> (ready w \<and> allocate_binary_buffer e (length d) \<noteq> 0
            \<and> heap_set e d (allocate_binary_buffer e (length d)) = None
          \<longrightarrow> CallIngest (allocate_binary_buffer e (length d)) (length d) h True
                \<in> set (new_calls w (snd (processSparseData e w d h b x))))"
  using absent
  by (auto simp: processSparseData_def ingest_block_def new_calls_def record_call_def Let_def
      ready_def split: prod.splits sum.splits option.splits)

theorem absent_hash_skips_verification_witness:
  "filter is_digest
     (new_calls sample_worker
        (snd (processSparseData sample_env sample_worker [1, 2, 3] 2000 (JStr ''b2'') (JStr []))))
     = []
   \<and> CallIngest 4096 3 2000 True
       \<in> set (new_calls sample_worker
          (snd (processSparseData sample_env sample_worker [1, 2, 3] 2000 (JStr ''b2'')
                  (JStr []))))
   \<and> processSparseData
        (sample_env \<lparr> sha256_hex := (\<lambda>d. Inl (Error ''digest unavailable'')) \<rparr>)
        sample_worker [1, 2, 3] 2000 (JStr ''b2'') (JStr [])
     = processSparseData sample_env sample_worker [1, 2, 3] 2000 (JStr ''b2'') (JStr [])"
proof -
  have absent: "\<not> truthy (JStr [])" by simp
  have len: "length [1, 2, 3 :: 8 word] = 3" by simp
  have pre: "ready sample_worker \<and> allocate_binary_buffer sample_env 3 \<noteq> 0
            \<and> heap_set sample_env [1, 2, 3] (allocate_binary_buffer sample_env 3) = None"
    by (simp add: sample_worker_ready sample_env_def)
  have ptr: "allocate_binary_buffer sample_env 3 = 4096"
    by (simp add: sample_env_def)
  from absent_hash_skips_verification[OF absent, of sample_worker sample_env "[1, 2, 3]" 2000
         "JStr ''b2''", unfolded len] pre ptr
  show ?thesis by (simp add: filter_empty_conv)
qed

section \<open>Properties of the scan journal\<close>

subsection \<open>Gap detection\<close>

lemma set_expected_chunks:
  "0 < c \<Longrightarrow> set (expected_chunks h e c) = {x. h \<le> x \<and> x < e \<and> c dvd (x - h)}"
proof (induction h e c rule: expected_chunks.induct)
  case (1 h e c)
  show ?case
  proof (cases "h < e")
    case False
    then show ?thesis by (subst expected_chunks.simps) auto
  next
    case True
    have step: "{x. h \<le> x \<and> x < e \<and> c dvd (x - h)}
          = insert h {x. h + c \<le> x \<and> x < e \<and> c dvd (x - (h + c))}"
    proof (intro set_eqI iffI)
      fix x assume "x \<in> {x. h \<le> x \<and> x < e \<and> c dvd (x - h)}"
      then have x: "h \<le> x" "x < e" "c dvd (x - h)" by auto
      show "x \<in> insert h {x. h + c \<le> x \<and> x < e \<and> c dvd (x - (h + c))}"
      proof (cases "x = h")
        case False
        with x have "0 < x - h" by simp
        with x(3) have "c \<le> x - h" by (rule zdvd_imp_le)
        moreover have "c dvd (x - h) - c"
          using x(3) by simp
        then have "c dvd (x - (h + c))"
          by (simp add: algebra_simps)
        ultimately show ?thesis using x by simp
      qed simp
    next
      fix x assume "x \<in> insert h {x. h + c \<le> x \<and> x < e \<and> c dvd (x - (h + c))}"
      then consider "x = h" | "h + c \<le> x" "x < e" "c dvd (x - (h + c))" by auto
      then show "x \<in> {x. h \<le> x \<and> x < e \<and> c dvd (x - h)}"
      proof cases
        case 1 with True show ?thesis by simp
      next
        case 2
        from 2(3) have "c dvd (x - (h + c)) + c" by (intro dvd_add dvd_refl)
        moreover have "(x - (h + c)) + c = x - h" by simp
        ultimately have "c dvd (x - h)" by (simp only:)
        with 2 \<open>0 < c\<close> show ?thesis by simp
      qed
    qed
    from True 1 show ?thesis
      by (subst expected_chunks.simps) (simp add: step)
  qed
qed

lemma sorted_expected_chunks: "sorted_wrt (<) (expected_chunks h e c)"
proof (induction h e c rule: expected_chunks.induct)
  case (1 h e c)
  show ?case
  proof (cases "0 < c \<and> h < e")
    case False
    then show ?thesis by (auto simp: expected_chunks.simps[of h e c])
  next
    case True
    then have "\<forall>x \<in> set (expected_chunks (h + c) e c). h < x"
      by (simp add: set_expected_chunks)
    with True 1 show ?thesis by (auto simp: expected_chunks.simps[of h e c])
  qed
qed

lemma align_down_dvd: "c dvd align_down h c"
  by (simp add: align_down_def)

lemma set_expected_chunks_aligned:
  assumes "0 < c"
  shows "set (expected_chunks (align_down s c) e c) = expected_set s e c"
proof -
  have "c dvd (x - align_down s c) \<longleftrightarrow> c dvd x" for x
    using align_down_dvd[of c s] by (simp add: dvd_diff_left_iff)
  then show ?thesis using assms by (auto simp: set_expected_chunks expected_set_def)
qed

text \<open>The model gives what the tests of the repository expect of \<open>detectGaps\<close>.\<close>

lemma detectGaps_tests:
  "detectGaps [0, 1000, 2000, 3000, 4000] 0 5000 1000 = []"
  "detectGaps [0, 1000, 3000, 4000] 0 5000 1000 = [2000]"
  "detectGaps [0, 3000] 0 4000 1000 = [1000, 2000]"
  "detectGaps [2000, 3000, 4000] 0 5000 1000 = [0, 1000]"
  "detectGaps [0, 1000, 2000] 0 5000 1000 = [3000, 4000]"
  "detectGaps [] 0 3000 1000 = [0, 1000, 2000]"
  "detectGaps [0, 500, 1500] 0 2000 500 = [1000]"
  "detectGaps [0, 2000] 500 3000 1000 = [1000]"
  "detectGaps [0, 1000, 2000] 0 2500 1000 = []"
  "detectGaps [0] 0 1000 1000 = []"
  by (simp_all add: detectGaps_def align_down_def expected_chunks.simps)

text \<open>
  Claim C3. For a positive chunk size, \<open>detectGaps\<close> returns, in strictly ascending
  order, exactly the multiples of the chunk size in the right-open range from the
  aligned start to the end height that are not among the scanned chunk-starts. The
  result is disjoint from the scanned chunk-starts; together with the scanned ones that
  are expected it is the whole expected set, and when the scanned values are
  chunk-starts (multiples of the chunk size) the same holds for the scanned ones of the
  range. Nothing scanned gives the whole expected sequence; a covered range gives the
  empty sequence.
\<close>

theorem detectGaps_exact:
  assumes size: "0 < chunkSize"
  shows "sorted_wrt (<) (detectGaps scanned startHeight endHeight chunkSize)
       \<and> set (detectGaps scanned startHeight endHeight chunkSize)
           = expected_set startHeight endHeight chunkSize - set scanned
       \<and> set (detectGaps scanned startHeight endHeight chunkSize) \<inter> set scanned = {}
       \<and> set (detectGaps scanned startHeight endHeight chunkSize)
           \<union> (set scanned \<inter> expected_set startHeight endHeight chunkSize)
           = expected_set startHeight endHeight chunkSize
       \<and> ((\<forall>h \<in> set scanned. chunkSize dvd h)
            \<longrightarrow> set (detectGaps scanned startHeight endHeight chunkSize)
                  \<union> (set scanned \<inter> {align_down startHeight chunkSize ..< endHeight})
                = expected_set startHeight endHeight chunkSize)
       \<and> detectGaps [] startHeight endHeight chunkSize
           = expected_chunks (align_down startHeight chunkSize) endHeight chunkSize
       \<and> set (detectGaps [] startHeight endHeight chunkSize)
           = expected_set startHeight endHeight chunkSize
       \<and> (expected_set startHeight endHeight chunkSize \<subseteq> set scanned
            \<longrightarrow> detectGaps scanned startHeight endHeight chunkSize = [])"
proof -
  let ?E = "expected_chunks (align_down startHeight chunkSize) endHeight chunkSize"
  have E: "set ?E = expected_set startHeight endHeight chunkSize"
    using size by (rule set_expected_chunks_aligned)
  have s: "sorted_wrt (<) (detectGaps scanned startHeight endHeight chunkSize)"
    unfolding detectGaps_def by (rule sorted_wrt_filter) (rule sorted_expected_chunks)
  have g: "set (detectGaps scanned startHeight endHeight chunkSize)
           = expected_set startHeight endHeight chunkSize - set scanned"
    by (auto simp: detectGaps_def E)
  have r: "(\<forall>h \<in> set scanned. chunkSize dvd h)
            \<longrightarrow> set scanned \<inter> {align_down startHeight chunkSize ..< endHeight}
                = set scanned \<inter> expected_set startHeight endHeight chunkSize"
    by (auto simp: expected_set_def)
  have e: "detectGaps [] startHeight endHeight chunkSize = ?E"
    by (simp add: detectGaps_def)
  have f: "expected_set startHeight endHeight chunkSize \<subseteq> set scanned
            \<longrightarrow> detectGaps scanned startHeight endHeight chunkSize = []"
    using E by (auto simp: detectGaps_def filter_empty_conv)
  from s g r e f E show ?thesis by (simp add: e) blast
qed

theorem detectGaps_exact_witness:
  "(0::int) < 1000
   \<and> detectGaps [0, 1000, 3000, 4000] 0 5000 1000 = [2000]
   \<and> set (detectGaps [0, 1000, 3000, 4000] 0 5000 1000)
       = expected_set 0 5000 1000 - set [0, 1000, 3000, 4000]
   \<and> sorted_wrt (<) (detectGaps [0, 1000, 3000, 4000] 0 5000 1000)"
proof -
  have h: "(0::int) < 1000" by simp
  have v: "detectGaps [0, 1000, 3000, 4000] 0 5000 1000 = [2000]"
    by (simp add: detectGaps_def align_down_def expected_chunks.simps)
  from detectGaps_exact[OF h, of "[0, 1000, 3000, 4000]" 0 5000] h v show ?thesis by simp
qed


subsection \<open>Buffered chunk records\<close>

lemma map_of_apply_pending:
  "map_of (apply_pending t (k', pu) js) k =
     (if k = k' then map_option (flush_entry t pu) (map_of js k) else map_of js k)"
  by (auto simp: apply_pending_def update_conv' split: option.splits)

lemma map_of_fold_apply_pending:
  "distinct (map fst ds) \<Longrightarrow>
   map_of (fold (apply_pending t) ds js) k =
     (case map_of ds k of
        None \<Rightarrow> map_of js k
      | Some pu \<Rightarrow> map_option (flush_entry t pu) (map_of js k))"
proof (induction ds arbitrary: js)
  case Nil
  then show ?case by simp
next
  case (Cons d ds)
  obtain k' pu where d: "d = (k', pu)" by (cases d)
  from Cons.prems d have fresh: "map_of ds k' = None" and dist: "distinct (map fst ds)"
    by (auto simp: map_of_eq_None_iff)
  show ?case
    using Cons.IH[OF dist, of "apply_pending t (k', pu) js"] fresh
    by (auto simp: d map_of_apply_pending split: option.splits)
qed

text \<open>
  The buffer holds one pending update for a scan: so it is when empty, and so
  \<open>recordScannedChunks\<close> and \<open>flushPendingUpdates\<close> leave it.
\<close>

lemma buffer_distinct:
  "distinct (map fst (dirty empty_state))"
  "distinct (map fst (dirty st))
   \<Longrightarrow> distinct (map fst (dirty (recordScannedChunks st scanId chunkStarts matched txCount)))"
  "distinct (map fst (dirty (flushPendingUpdates t st)))"
  "dirty (startScanJournal t st scanId walletAddress startHeight targetEndHeight) = dirty st"
  by (simp_all add: empty_state_def recordScannedChunks_def flushPendingUpdates_def
      startScanJournal_def Let_def distinct_update)

lemma flush_after_record:
  assumes buffer: "distinct (map fst (dirty st))"
    and entry: "read_journal st scanId = Some entry"
  shows "journal_store (recordScannedChunks st scanId chunkStarts matched txCount) = journal_store st
       \<and> read_journal (recordScannedChunks st scanId chunkStarts matched txCount) scanId = Some entry
       \<and> dirty (flushPendingUpdates t (recordScannedChunks st scanId chunkStarts matched txCount)) = []
       \<and> read_journal (flushPendingUpdates t
             (recordScannedChunks st scanId chunkStarts matched txCount)) scanId
           = Some (entry
               \<lparr> je_scannedChunks := je_scannedChunks entry
                     \<union> fst ` set (pu_chunks (pending_of st scanId)) \<union> set chunkStarts,
                 je_matchedChunks := je_matchedChunks entry
                     \<union> fst ` set (filter snd (pu_chunks (pending_of st scanId)))
                     \<union> (if matched then set chunkStarts else {}),
                 je_transactionsFound :=
                   je_transactionsFound entry + pu_txCount (pending_of st scanId) + txCount,
                 je_lastUpdateTimestamp := t \<rparr>)"
proof -
  let ?st = "recordScannedChunks st scanId chunkStarts matched txCount"
  let ?pu = "\<lparr> pu_chunks = pu_chunks (pending_of st scanId) @ map (\<lambda>c. (c, matched)) chunkStarts,
               pu_txCount = pu_txCount (pending_of st scanId) + txCount \<rparr>"
  have js: "journal_store ?st = journal_store st"
    by (simp add: recordScannedChunks_def Let_def)
  have d: "dirty ?st = AList.update scanId ?pu (dirty st)"
    by (simp add: recordScannedChunks_def Let_def)
  have dist: "distinct (map fst (dirty ?st))"
    using buffer by (simp add: d distinct_update)
  have look: "map_of (dirty ?st) scanId = Some ?pu"
    by (simp add: d update_conv')
  have "read_journal (flushPendingUpdates t ?st) scanId = Some (flush_entry t ?pu entry)"
    using entry map_of_fold_apply_pending[OF dist, of t "journal_store st" scanId] look
    by (simp add: flushPendingUpdates_def read_journal_def js)
  moreover have "flush_entry t ?pu entry = entry
               \<lparr> je_scannedChunks := je_scannedChunks entry
                     \<union> fst ` set (pu_chunks (pending_of st scanId)) \<union> set chunkStarts,
                 je_matchedChunks := je_matchedChunks entry
                     \<union> fst ` set (filter snd (pu_chunks (pending_of st scanId)))
                     \<union> (if matched then set chunkStarts else {}),
                 je_transactionsFound :=
                   je_transactionsFound entry + pu_txCount (pending_of st scanId) + txCount,
                 je_lastUpdateTimestamp := t \<rparr>"
    by (auto simp: flush_entry_def image_Un image_image Un_assoc filter_map comp_def)
  ultimately show ?thesis
    using entry by (simp add: js read_journal_def flushPendingUpdates_def)
qed

text \<open>
  Claim C4. \<open>recordScannedChunks\<close> leaves the durable journal as it is: a fresh read
  of the entry of the scan gives what it gave before. After \<open>flushPendingUpdates\<close> the
  buffer is empty, and the read of an entry that exists gives the entry with everything
  that was pending for the scan: the staged chunk-starts in \<open>scannedChunks\<close> (and in
  \<open>matchedChunks\<close> when tagged matched) and the pending count added to
  \<open>transactionsFound\<close>. The buffer holds one pending update for a scan.
\<close>

theorem recorded_chunks_durable_only_after_flush:
  "journal_store (recordScannedChunks st scanId chunkStarts matched txCount) = journal_store st
   \<and> read_journal (recordScannedChunks st scanId chunkStarts matched txCount) scanId
       = read_journal st scanId
   \<and> dirty (flushPendingUpdates t (recordScannedChunks st scanId chunkStarts matched txCount)) = []
   \<and> (distinct (map fst (dirty st)) \<and> read_journal st scanId = Some entry \<longrightarrow>
        read_journal (flushPendingUpdates t
             (recordScannedChunks st scanId chunkStarts matched txCount)) scanId
           = Some (entry
               \<lparr> je_scannedChunks := je_scannedChunks entry
                     \<union> fst ` set (pu_chunks (pending_of st scanId)) \<union> set chunkStarts,
                 je_matchedChunks := je_matchedChunks entry
                     \<union> fst ` set (filter snd (pu_chunks (pending_of st scanId)))
                     \<union> (if matched then set chunkStarts else {}),
                 je_transactionsFound :=
                   je_transactionsFound entry + pu_txCount (pending_of st scanId) + txCount,
                 je_lastUpdateTimestamp := t \<rparr>))"
proof -
  have "journal_store (recordScannedChunks st scanId chunkStarts matched txCount)
          = journal_store st"
    by (simp add: recordScannedChunks_def Let_def)
  moreover have
    "dirty (flushPendingUpdates t (recordScannedChunks st scanId chunkStarts matched txCount)) = []"
    by (simp add: flushPendingUpdates_def)
  ultimately show ?thesis
    using flush_after_record[of st scanId entry chunkStarts matched txCount t]
    by (simp add: read_journal_def)
qed

theorem recorded_chunks_durable_only_after_flush_witness:
  "map_option je_scannedChunks (read_journal recorded_state ''s1'') = Some {}
   \<and> map_option je_transactionsFound (read_journal recorded_state ''s1'') = Some 0
   \<and> map_option je_scannedChunks (read_journal (flushPendingUpdates 200 recorded_state) ''s1'')
       = Some {0, 1000}
   \<and> map_option je_matchedChunks (read_journal (flushPendingUpdates 200 recorded_state) ''s1'')
       = Some {0, 1000}
   \<and> map_option je_transactionsFound (read_journal (flushPendingUpdates 200 recorded_state) ''s1'')
       = Some 5
   \<and> dirty (flushPendingUpdates 200 recorded_state) = []"
proof -
  let ?st = "startScanJournal 100 empty_state ''s1'' ''w1'' 0 10000"
  let ?entry = "\<lparr> je_walletAddress = ''w1'', je_startHeight = 0,
                je_targetEndHeight = 10000, je_scannedChunks = {},
                je_inProgressChunks = {}, je_matchedChunks = {}, je_phase = Phase1,
                je_transactionsFound = 0, je_errorCount = 0, je_lastErrorMessage = None,
                je_lastUpdateTimestamp = 100 \<rparr>"
  have a: "distinct (map fst (dirty ?st))"
    by (simp add: startScanJournal_def empty_state_def)
  have b: "read_journal ?st ''s1'' = Some ?entry"
    by (simp add: startScanJournal_def empty_state_def read_journal_def)
  have p: "pending_of ?st ''s1'' = \<lparr> pu_chunks = [], pu_txCount = 0 \<rparr>"
    by (simp add: pending_of_def startScanJournal_def empty_state_def)
  from recorded_chunks_durable_only_after_flush[of ?st "''s1''" "[0, 1000]" True 5 200 ?entry] a b
  show ?thesis by (simp add: recorded_state_def p insert_commute)
qed


subsection \<open>Resuming a fresh wallet\<close>

lemma no_entry_no_incomplete_journal:
  "\<forall>kv \<in> set (journal_store st). je_walletAddress (snd kv) \<noteq> walletAddress
   \<Longrightarrow> getIncompleteJournal st walletAddress = None"
  by (auto simp: getIncompleteJournal_def find_None_iff)

text \<open>
  Claim C5. For a wallet address with no journal entry and no checkpoint,
  \<open>validateAndResume\<close> returns \<open>canResume:false\<close>, \<open>needsFullRescan:true\<close> and
  \<open>lastCompletedHeight:0\<close>, for every target height and chunk size.
\<close>

theorem fresh_wallet_needs_full_rescan:
  assumes "\<forall>kv \<in> set (journal_store st). je_walletAddress (snd kv) \<noteq> walletAddress"
    and "getCheckpoint st walletAddress = None"
  shows "validateAndResume st walletAddress targetEndHeight chunkSize
         = \<lparr> canResume = False, needsFullRescan = True, lastCompletedHeight = 0 \<rparr>"
  using assms by (simp add: validateAndResume_def no_entry_no_incomplete_journal)

theorem fresh_wallet_needs_full_rescan_witness:
  "journal_store empty_state = [] \<and> getCheckpoint empty_state ''w1'' = None
   \<and> validateAndResume empty_state ''w1'' 50000 1000
       = \<lparr> canResume = False, needsFullRescan = True, lastCompletedHeight = 0 \<rparr>"
proof -
  have a: "\<forall>kv \<in> set (journal_store empty_state). je_walletAddress (snd kv) \<noteq> ''w1''"
    by (simp add: empty_state_def)
  have b: "getCheckpoint empty_state ''w1'' = None"
    by (simp add: getCheckpoint_def empty_state_def)
  from fresh_wallet_needs_full_rescan[OF a b, of 50000 1000] b show ?thesis
    by (simp add: empty_state_def)
qed

end
